theory Spec2Isabelle
  imports Complex_Main "HOL-Library.Char_ord" "HOL-Library.List_Lexorder"
begin

section \<open>The padel league rating engine (padel\_app.py)\<close>

text \<open>
  A shallow embedding of the Elo engine of \<^verbatim>\<open>padel_app.py\<close>: the function
  \<^verbatim>\<open>calculate_expected_score\<close>, the function \<^verbatim>\<open>process_match\<close> with the two SQLite
  tables it reads and writes, and the validation that \<^verbatim>\<open>main\<close> performs before it calls
  \<^verbatim>\<open>process_match\<close>.

  Python floats are modelled as the real numbers: rounding, overflow of \<^verbatim>\<open>10 ** x\<close> and
  the formatting of the success message to three decimals are outside that model. The
  two expressions that compute a player's change are given a second time with the
  rounding of binary64, to compare the change of the two teams as the program computes
  them. Python integers are \<^typ>\<open>int\<close>. The committed content of the database is passed in and
  returned explicitly; the \<^verbatim>\<open>timestamp\<close> column (wall-clock time) and the
  auto-incremented match id (the position of a row in the table) are left out.
\<close>

subsection \<open>Configuration\<close>

definition K_FACTOR_STANDARD :: int where
  "K_FACTOR_STANDARD = 32"

definition K_FACTOR_PROVISIONAL :: int where
  "K_FACTOR_PROVISIONAL = 64"

definition PROVISIONAL_LIMIT :: int where
  "PROVISIONAL_LIMIT = 5"

definition RATING_FLOOR :: int where
  "RATING_FLOOR = 100"

definition SCALING_FACTOR :: int where
  "SCALING_FACTOR = 100"

subsection \<open>The database\<close>

text \<open>
  Table \<^verbatim>\<open>players (id, name, rating REAL, matches_played INTEGER)\<close> and table
  \<^verbatim>\<open>matches (p1_id, ..., rating_change_team1 REAL, rating_change_team2 REAL)\<close>,
  each a list of rows; \<^verbatim>\<open>INSERT\<close> appends a row.
\<close>

record player_row =
  player_id :: int
  name :: string
  rating :: real
  matches_played :: int

record match_row =
  p1_id :: int
  p2_id :: int
  p3_id :: int
  p4_id :: int
  score_team1 :: int
  score_team2 :: int
  rating_change_team1 :: real
  rating_change_team2 :: real

record db =
  players_table :: "player_row list"
  matches_table :: "match_row list"

text \<open>
  \<^verbatim>\<open>SELECT rating, matches_played FROM players WHERE id=?\<close> followed by
  \<^verbatim>\<open>fetchone()\<close>: the first matching row, or Python's \<^verbatim>\<open>None\<close>.
\<close>

definition select_player :: "db \<Rightarrow> int \<Rightarrow> (real \<times> int) option" where
  "select_player d pid =
     map_option (\<lambda>r. (rating r, matches_played r))
       (find (\<lambda>r. player_id r = pid) (players_table d))"

text \<open>\<^verbatim>\<open>UPDATE players SET rating=?, matches_played=? WHERE id=?\<close>\<close>

definition update_player :: "db \<Rightarrow> (int \<times> real \<times> int) \<Rightarrow> db" where
  "update_player d u =
     (case u of (pid, new_r, new_m) \<Rightarrow>
        d\<lparr>players_table :=
            map (\<lambda>r. if player_id r = pid
                      then r\<lparr>rating := new_r, matches_played := new_m\<rparr> else r)
              (players_table d)\<rparr>)"

text \<open>\<^verbatim>\<open>INSERT INTO matches (...) VALUES (...)\<close>\<close>

definition insert_match :: "db \<Rightarrow> match_row \<Rightarrow> db" where
  "insert_match d m = d\<lparr>matches_table := matches_table d @ [m]\<rparr>"

subsection \<open>Elo logic\<close>

text \<open>\<^verbatim>\<open>return 1 / (1 + 10 ** ((rating_b - rating_a) / 400))\<close>\<close>

definition calculate_expected_score :: "real \<Rightarrow> real \<Rightarrow> real" where
  "calculate_expected_score rating_a rating_b =
     1 / (1 + 10 powr ((rating_b - rating_a) / 400))"

text \<open>
  What a call of \<^verbatim>\<open>process_match\<close> gives back: a returned pair
  \<^verbatim>\<open>(success, message)\<close>, or a raised exception. The only exception the modelled code
  can raise is the \<^verbatim>\<open>TypeError\<close> of unpacking \<^verbatim>\<open>None\<close> in
  \<^verbatim>\<open>r1, m1 = players[p1_id]\<close>. The success message carries the number
  \<^verbatim>\<open>ref_change/SCALING_FACTOR\<close> that the f-string prints.
\<close>

datatype py_exn = TypeError | KeyError

datatype message = Text string | Match_recorded real

datatype 'a py_result = Raised py_exn | Returned 'a

text \<open>
  The bodies of the two \<^verbatim>\<open>for pid, rating, matches in [...]\<close> loops. The local
  variables \<^verbatim>\<open>k\<close> and \<^verbatim>\<open>change\<close> of each body are \<open>k_factor\<close> and
  \<open>team1_change\<close>, \<open>team2_change\<close>; the loop variable \<^verbatim>\<open>rating\<close> is
  \<open>old_rating\<close> here, \<open>rating\<close> being the column.
\<close>

definition k_factor :: "int \<Rightarrow> int" where
  "k_factor matches =
     (if matches < PROVISIONAL_LIMIT then K_FACTOR_PROVISIONAL else K_FACTOR_STANDARD)"

definition team1_change :: "int \<Rightarrow> real \<Rightarrow> real \<Rightarrow> real" where
  "team1_change matches actual_t1 expected_t1 =
     real_of_int (k_factor matches) * (actual_t1 - expected_t1)"

definition team2_change :: "int \<Rightarrow> real \<Rightarrow> real \<Rightarrow> real" where
  "team2_change matches actual_t1 expected_t1 =
     real_of_int (k_factor matches) * ((1 - actual_t1) - (1 - expected_t1))"

definition team1_update ::
  "real \<Rightarrow> real \<Rightarrow> (int \<times> real \<times> int) \<Rightarrow> (int \<times> real \<times> int)" where
  "team1_update actual_t1 expected_t1 p =
     (case p of (pid, old_rating, matches) \<Rightarrow>
        (let change = team1_change matches actual_t1 expected_t1;
             new_rating = max (real_of_int RATING_FLOOR) (old_rating + change)
         in (pid, new_rating, matches + 1)))"

definition team2_update ::
  "real \<Rightarrow> real \<Rightarrow> (int \<times> real \<times> int) \<Rightarrow> (int \<times> real \<times> int)" where
  "team2_update actual_t1 expected_t1 p =
     (case p of (pid, old_rating, matches) \<Rightarrow>
        (let change = team2_change matches actual_t1 expected_t1;
             new_rating = max (real_of_int RATING_FLOOR) (old_rating + change)
         in (pid, new_rating, matches + 1)))"

text \<open>
  \<^verbatim>\<open>process_match\<close>. The four \<^verbatim>\<open>SELECT\<close>s come first; unpacking a missing row
  raises. The zero check on \<^verbatim>\<open>total_points\<close> follows, then the two loops build
  \<^verbatim>\<open>updates\<close>, the \<^verbatim>\<open>UPDATE\<close>s run in the order of that list, and one
  match row is inserted.
\<close>

definition process_match ::
  "db \<Rightarrow> int \<Rightarrow> int \<Rightarrow> int \<Rightarrow> int \<Rightarrow> int \<Rightarrow> int
     \<Rightarrow> (bool \<times> message) py_result \<times> db" where
  "process_match d p1 p2 p3 p4 score_t1 score_t2 =
     (case select_player d p1 of None \<Rightarrow> (Raised TypeError, d) | Some (r1, m1) \<Rightarrow>
     (case select_player d p2 of None \<Rightarrow> (Raised TypeError, d) | Some (r2, m2) \<Rightarrow>
     (case select_player d p3 of None \<Rightarrow> (Raised TypeError, d) | Some (r3, m3) \<Rightarrow>
     (case select_player d p4 of None \<Rightarrow> (Raised TypeError, d) | Some (r4, m4) \<Rightarrow>
        (let team1_rating = (r1 + r2) / 2;
             team2_rating = (r3 + r4) / 2;
             expected_t1 = calculate_expected_score team1_rating team2_rating;
             total_points = score_t1 + score_t2
         in if total_points = 0
            then (Returned (False, Text ''Total points cannot be zero.''), d)
            else
              (let actual_t1 = real_of_int score_t1 / real_of_int total_points;
                   updates =
                     map (team1_update actual_t1 expected_t1) [(p1, r1, m1), (p2, r2, m2)]
                     @ map (team2_update actual_t1 expected_t1) [(p3, r3, m3), (p4, r4, m4)];
                   d1 = foldl update_player d updates;
                   ref_change = fst (snd (hd updates)) - r1;
                   d2 = insert_match d1
                          \<lparr>p1_id = p1, p2_id = p2, p3_id = p3, p4_id = p4,
                           score_team1 = score_t1, score_team2 = score_t2,
                           rating_change_team1 = ref_change,
                           rating_change_team2 = - ref_change\<rparr>
               in (Returned (True, Match_recorded (ref_change / real_of_int SCALING_FACTOR)),
                   d2)))))))"

subsection \<open>The change expressions in binary64\<close>

text \<open>
  Python computes lines 140, 151 and 160 in IEEE 754 binary64, rounding every operation to
  the nearest representable number, ties to the even significand. \<open>round64\<close> is that
  rounding for a number in the normal range: \<open>binade x\<close> is the exponent \<open>k\<close> with
  \<open>2 powi k \<le> x < 2 powi (k + 1)\<close>, a significand has 53 bits, so the spacing of the
  representable numbers around \<open>x\<close> is \<open>2 powi (k - 52)\<close>. Overflow and subnormal numbers
  are not modelled; the values below stay far from both.
\<close>

definition round_half_even :: "real \<Rightarrow> int" where
  "round_half_even q =
     (let f = \<lfloor>q\<rfloor>; r = q - real_of_int f
      in if r < 1 / 2 then f else if 1 / 2 < r then f + 1
         else if even f then f else f + 1)"

function binade :: "real \<Rightarrow> int" where
  "binade x =
     (if x \<le> 0 then 0
      else if 2 \<le> x then binade (x / 2) + 1
      else if x < 1 then binade (2 * x) - 1
      else 0)"
  by pat_completeness auto
termination
proof (relation "measure (\<lambda>x. if 1 \<le> x then nat \<lfloor>x\<rfloor> else nat \<lfloor>1 / x\<rfloor> + 1)")
  show "wf (measure (\<lambda>x::real. if 1 \<le> x then nat \<lfloor>x\<rfloor> else nat \<lfloor>1 / x\<rfloor> + 1))"
    by simp
next
  fix x :: real
  assume a: "\<not> x \<le> 0" "2 \<le> x"
  have "\<lfloor>x / 2\<rfloor> < \<lfloor>x\<rfloor>"
  proof -
    have "x / 2 \<le> x - 1" using a by simp
    then have "\<lfloor>x / 2\<rfloor> \<le> \<lfloor>x - 1\<rfloor>" by (rule floor_mono)
    then show ?thesis by simp
  qed
  moreover have "0 < \<lfloor>x\<rfloor>" using a by simp
  ultimately show "(x / 2, x) \<in> measure (\<lambda>x. if 1 \<le> x then nat \<lfloor>x\<rfloor> else nat \<lfloor>1 / x\<rfloor> + 1)"
    using a by simp
next
  fix x :: real
  assume a: "\<not> x \<le> 0" "\<not> 2 \<le> x" "x < 1"
  show "(2 * x, x) \<in> measure (\<lambda>x. if 1 \<le> x then nat \<lfloor>x\<rfloor> else nat \<lfloor>1 / x\<rfloor> + 1)"
  proof (cases "1 \<le> 2 * x")
    case True
    then have "2 * x < 2" using a by simp
    with True have "\<lfloor>2 * x\<rfloor> = 1" by linarith
    moreover have "1 \<le> \<lfloor>1 / x\<rfloor>" using a by (simp add: field_simps)
    ultimately show ?thesis using a True by simp
  next
    case False
    then have y: "2 \<le> 1 / x" using a by (simp add: field_simps)
    have eq: "1 / (2 * x) = (1 / x) / 2" by simp
    have "y / 2 \<le> y - 1" if "2 \<le> y" for y :: real using that by simp
    from this [OF y] have "(1 / x) / 2 \<le> 1 / x - 1" .
    then have "\<lfloor>(1 / x) / 2\<rfloor> \<le> \<lfloor>1 / x - 1\<rfloor>" by (rule floor_mono)
    then have less: "\<lfloor>1 / (2 * x)\<rfloor> < \<lfloor>1 / x\<rfloor>" unfolding eq by simp
    have "\<not> 1 \<le> x" using a by simp
    moreover have "2 \<le> \<lfloor>1 / x\<rfloor>" using y by (simp add: le_floor_iff)
    moreover have "\<not> 1 \<le> 2 * x" using False .
    ultimately have "(if 1 \<le> 2 * x then nat \<lfloor>2 * x\<rfloor> else nat \<lfloor>1 / (2 * x)\<rfloor> + 1)
        < (if 1 \<le> x then nat \<lfloor>x\<rfloor> else nat \<lfloor>1 / x\<rfloor> + 1)"
      using less by simp
    then show ?thesis by (simp only: in_measure)
  qed
qed

declare binade.simps [simp del]

definition round64 :: "real \<Rightarrow> real" where
  "round64 x =
     (if x = 0 then 0
      else (let u = 2 powi (binade \<bar>x\<bar> - 52)
            in u * real_of_int (round_half_even (x / u))))"

text \<open>
  \<^verbatim>\<open>actual_t1 = score_t1 / total_points\<close>, \<^verbatim>\<open>change = k * (actual_t1 - expected_t1)\<close> and
  \<^verbatim>\<open>change = k * ((1 - actual_t1) - (1 - expected_t1))\<close> with each operation rounded.
  The integers \<^verbatim>\<open>k\<close> and \<^verbatim>\<open>1\<close> convert to binary64 exactly.
\<close>

definition fl_actual_t1 :: "int \<Rightarrow> int \<Rightarrow> real" where
  "fl_actual_t1 score_t1 total_points =
     round64 (real_of_int score_t1 / real_of_int total_points)"

definition fl_team1_change :: "int \<Rightarrow> real \<Rightarrow> real \<Rightarrow> real" where
  "fl_team1_change matches actual_t1 expected_t1 =
     round64 (real_of_int (k_factor matches) * round64 (actual_t1 - expected_t1))"

definition fl_team2_change :: "int \<Rightarrow> real \<Rightarrow> real \<Rightarrow> real" where
  "fl_team2_change matches actual_t1 expected_t1 =
     round64 (real_of_int (k_factor matches)
              * round64 (round64 (1 - actual_t1) - round64 (1 - expected_t1)))"

subsection \<open>The Record Match page of \<^verbatim>\<open>main\<close>\<close>

text \<open>
  \<^verbatim>\<open>get_players\<close>: all rows, \<^verbatim>\<open>ORDER BY name\<close> (SQLite compares text bytewise).
\<close>

definition get_players :: "db \<Rightarrow> player_row list" where
  "get_players d = sort_key name (players_table d)"

text \<open>
  \<^verbatim>\<open>dict(zip(player_df['name'], player_df['id']))\<close>: a later row replaces an earlier
  one with the same name.
\<close>

definition player_dict_of :: "player_row list \<Rightarrow> (string \<rightharpoonup> int)" where
  "player_dict_of player_df = map_of (rev (map (\<lambda>r. (name r, player_id r)) player_df))"

datatype ui_output = St_warning string | St_error message | St_success message

text \<open>
  One run of the Record Match branch of \<^verbatim>\<open>main\<close> with the Submit button pressed. The
  values of the four select boxes and of the two number inputs are the parameters.
  \<^verbatim>\<open>len(set(selected_players))\<close> is the length of the list without its duplicates;
  \<^verbatim>\<open>player_dict[...]\<close> raises \<^verbatim>\<open>KeyError\<close> on a name that is not a key; an
  exception of \<^verbatim>\<open>process_match\<close> is not caught.
\<close>

definition main_record_match ::
  "db \<Rightarrow> string \<Rightarrow> string \<Rightarrow> string \<Rightarrow> string \<Rightarrow> int \<Rightarrow> int
     \<Rightarrow> ui_output py_result \<times> db" where
  "main_record_match d t1_p1 t1_p2 t2_p1 t2_p2 score_t1 score_t2 =
     (let player_df = get_players d
      in if length player_df < 4
         then (Returned
                 (St_warning ''You need at least 4 players registered to record a match.''),
               d)
         else
           (let player_dict = player_dict_of player_df;
                selected_players = [t1_p1, t1_p2, t2_p1, t2_p2]
            in if length (remdups selected_players) \<noteq> 4
               then (Returned
                       (St_error
                          (Text ''Error: You selected the same player multiple times.'')),
                     d)
               else if score_t1 = 0 \<and> score_t2 = 0
               then (Returned (St_error (Text ''Error: Total points cannot be zero.'')), d)
               else
                 (case player_dict t1_p1 of None \<Rightarrow> (Raised KeyError, d) | Some p1 \<Rightarrow>
                 (case player_dict t1_p2 of None \<Rightarrow> (Raised KeyError, d) | Some p2 \<Rightarrow>
                 (case player_dict t2_p1 of None \<Rightarrow> (Raised KeyError, d) | Some p3 \<Rightarrow>
                 (case player_dict t2_p2 of None \<Rightarrow> (Raised KeyError, d) | Some p4 \<Rightarrow>
                   (case process_match d p1 p2 p3 p4 score_t1 score_t2 of
                      (Raised e, d') \<Rightarrow> (Raised e, d')
                    | (Returned (success, msg), d') \<Rightarrow>
                        (Returned (if success then St_success msg else St_error msg),
                         d'))))))))"

subsection \<open>A league to run the engine on\<close>

text \<open>
  Four players at 500 (display 5.00) with 0, 12, 4 and 5 matches behind them, and four
  players at the floor, 100.
\<close>

definition league_db :: db where
  "league_db =
     \<lparr>players_table =
        [\<lparr>player_id = 1, name = ''Ana'', rating = 500, matches_played = 0\<rparr>,
         \<lparr>player_id = 2, name = ''Ben'', rating = 500, matches_played = 12\<rparr>,
         \<lparr>player_id = 3, name = ''Cal'', rating = 500, matches_played = 4\<rparr>,
         \<lparr>player_id = 4, name = ''Dee'', rating = 500, matches_played = 5\<rparr>,
         \<lparr>player_id = 5, name = ''Eve'', rating = 100, matches_played = 0\<rparr>,
         \<lparr>player_id = 6, name = ''Fay'', rating = 100, matches_played = 10\<rparr>,
         \<lparr>player_id = 7, name = ''Gus'', rating = 100, matches_played = 0\<rparr>,
         \<lparr>player_id = 8, name = ''Hal'', rating = 100, matches_played = 7\<rparr>],
      matches_table = []\<rparr>"

section \<open>The expected-outcome model\<close>

lemma ten_powr_neg: "(10::real) powr (- x) = 1 / 10 powr x"
  by (simp add: powr_minus_divide)

text \<open>
  Claim C2. Over the reals, \<open>calculate_expected_score a b\<close> is
  \<open>1 / (1 + 10 powr ((b - a) / 400))\<close>; the expectations of the two sides add up to
  exactly one; and equal ratings give exactly one half.
\<close>

theorem expected_score_symmetry:
  "calculate_expected_score a b = 1 / (1 + 10 powr ((b - a) / 400))
   \<and> calculate_expected_score a b + calculate_expected_score b a = 1
   \<and> calculate_expected_score a a = 1 / 2"
proof -
  define t where "t = (10::real) powr ((b - a) / 400)"
  have tpos: "0 < t" by (simp add: t_def)
  have "(a - b) / 400 = - ((b - a) / 400)" by argo
  then have inv: "(10::real) powr ((a - b) / 400) = 1 / t"
    unfolding t_def by (simp only: ten_powr_neg)
  have "1 / (1 + t) + 1 / (1 + 1 / t) = 1"
    using tpos by (simp add: field_simps)
  then have "calculate_expected_score a b + calculate_expected_score b a = 1"
    by (simp add: calculate_expected_score_def inv t_def [symmetric])
  moreover have "calculate_expected_score a a = 1 / 2"
    by (simp add: calculate_expected_score_def)
  ultimately show ?thesis
    by (simp add: calculate_expected_score_def)
qed

section \<open>Reading the tables after the writes\<close>

text \<open>
  An \<^verbatim>\<open>UPDATE\<close> changes what a later \<^verbatim>\<open>SELECT\<close> of the same id reads and
  nothing else; the \<^verbatim>\<open>INSERT\<close> touches only the match table.
\<close>

lemma find_map_update:
  "find (\<lambda>r. player_id r = k)
     (map (\<lambda>r. if player_id r = pid
               then r\<lparr>rating := nr, matches_played := nm\<rparr> else r) rows)
   = (if k = pid
      then map_option (\<lambda>r. r\<lparr>rating := nr, matches_played := nm\<rparr>)
             (find (\<lambda>r. player_id r = k) rows)
      else find (\<lambda>r. player_id r = k) rows)"
  by (induction rows) auto

lemma select_update_player:
  "select_player (update_player d (pid, nr, nm)) k
   = (if k = pid then map_option (\<lambda>_. (nr, nm)) (select_player d k)
      else select_player d k)"
  by (simp add: select_player_def update_player_def find_map_update option.map_comp comp_def)

lemma matches_update_player:
  "matches_table (update_player d u) = matches_table d"
  by (cases u) (simp add: update_player_def)

lemma select_insert_match:
  "select_player (insert_match d m) k = select_player d k"
  by (simp add: select_player_def insert_match_def)

lemma matches_insert_match:
  "matches_table (insert_match d m) = matches_table d @ [m]"
  by (simp add: insert_match_def)

section \<open>What one call of \<^verbatim>\<open>process_match\<close> does\<close>

lemma team1_update_eq:
  "team1_update a e (p, r, m) = (p, max 100 (r + team1_change m a e), m + 1)"
  by (simp add: team1_update_def RATING_FLOOR_def)

lemma team2_update_eq:
  "team2_update a e (p, r, m) = (p, max 100 (r + team2_change m a e), m + 1)"
  by (simp add: team2_update_def RATING_FLOOR_def)

lemma process_match_missing:
  "select_player d p1 = None \<or> select_player d p2 = None
   \<or> select_player d p3 = None \<or> select_player d p4 = None
   \<Longrightarrow> process_match d p1 p2 p3 p4 s1 s2 = (Raised TypeError, d)"
  by (auto simp: process_match_def split: option.splits)

lemma process_match_zero:
  "select_player d p1 = Some (r1, m1) \<Longrightarrow> select_player d p2 = Some (r2, m2)
   \<Longrightarrow> select_player d p3 = Some (r3, m3) \<Longrightarrow> select_player d p4 = Some (r4, m4)
   \<Longrightarrow> s1 + s2 = 0
   \<Longrightarrow> process_match d p1 p2 p3 p4 s1 s2
       = (Returned (False, Text ''Total points cannot be zero.''), d)"
  by (simp add: process_match_def)

lemma process_match_ok:
  assumes "select_player d p1 = Some (r1, m1)" "select_player d p2 = Some (r2, m2)"
    "select_player d p3 = Some (r3, m3)" "select_player d p4 = Some (r4, m4)"
    "s1 + s2 \<noteq> 0"
  defines "a \<equiv> real_of_int s1 / real_of_int (s1 + s2)"
    and "e \<equiv> calculate_expected_score ((r1 + r2) / 2) ((r3 + r4) / 2)"
  defines "ref \<equiv> max 100 (r1 + team1_change m1 a e) - r1"
  shows "process_match d p1 p2 p3 p4 s1 s2 =
     (Returned (True, Match_recorded (ref / 100)),
      insert_match
        (update_player (update_player (update_player (update_player d
          (p1, max 100 (r1 + team1_change m1 a e), m1 + 1))
          (p2, max 100 (r2 + team1_change m2 a e), m2 + 1))
          (p3, max 100 (r3 + team2_change m3 a e), m3 + 1))
          (p4, max 100 (r4 + team2_change m4 a e), m4 + 1))
        \<lparr>p1_id = p1, p2_id = p2, p3_id = p3, p4_id = p4,
         score_team1 = s1, score_team2 = s2,
         rating_change_team1 = ref, rating_change_team2 = - ref\<rparr>)"
  using assms(1-5)
  by (simp add: process_match_def Let_def team1_update_eq team2_update_eq
      SCALING_FACTOR_def a_def e_def ref_def)

lemma process_match_select:
  assumes "select_player d p1 = Some (r1, m1)" "select_player d p2 = Some (r2, m2)"
    "select_player d p3 = Some (r3, m3)" "select_player d p4 = Some (r4, m4)"
    "s1 + s2 \<noteq> 0"
  defines "a \<equiv> real_of_int s1 / real_of_int (s1 + s2)"
    and "e \<equiv> calculate_expected_score ((r1 + r2) / 2) ((r3 + r4) / 2)"
  shows "select_player (snd (process_match d p1 p2 p3 p4 s1 s2)) k =
     (if k = p4 then Some (max 100 (r4 + team2_change m4 a e), m4 + 1)
      else if k = p3 then Some (max 100 (r3 + team2_change m3 a e), m3 + 1)
      else if k = p2 then Some (max 100 (r2 + team1_change m2 a e), m2 + 1)
      else if k = p1 then Some (max 100 (r1 + team1_change m1 a e), m1 + 1)
      else select_player d k)"
  unfolding a_def e_def
  by (simp add: process_match_ok [OF assms(1-5)]
      select_insert_match select_update_player assms(1-4))

lemma process_match_success_iff:
  "(\<exists>x. fst (process_match d p1 p2 p3 p4 s1 s2) = Returned (True, x))
   \<longleftrightarrow> (select_player d p1 \<noteq> None \<and> select_player d p2 \<noteq> None
        \<and> select_player d p3 \<noteq> None \<and> select_player d p4 \<noteq> None \<and> s1 + s2 \<noteq> 0)"
  by (auto simp: process_match_def Let_def split: option.splits)

lemma process_match_failure_unchanged:
  "\<forall>x. fst (process_match d p1 p2 p3 p4 s1 s2) \<noteq> Returned (True, x)
   \<Longrightarrow> snd (process_match d p1 p2 p3 p4 s1 s2) = d"
  by (auto simp: process_match_def Let_def split: option.splits)

lemma players_insert_match:
  "players_table (insert_match d m) = players_table d"
  by (simp add: insert_match_def)

lemma process_match_players:
  assumes "select_player d p1 = Some (r1, m1)" "select_player d p2 = Some (r2, m2)"
    "select_player d p3 = Some (r3, m3)" "select_player d p4 = Some (r4, m4)"
    "s1 + s2 \<noteq> 0"
  defines "a \<equiv> real_of_int s1 / real_of_int (s1 + s2)"
    and "e \<equiv> calculate_expected_score ((r1 + r2) / 2) ((r3 + r4) / 2)"
  shows "players_table (snd (process_match d p1 p2 p3 p4 s1 s2)) =
     players_table (foldl update_player d
       [(p1, max 100 (r1 + team1_change m1 a e), m1 + 1),
        (p2, max 100 (r2 + team1_change m2 a e), m2 + 1),
        (p3, max 100 (r3 + team2_change m3 a e), m3 + 1),
        (p4, max 100 (r4 + team2_change m4 a e), m4 + 1)])"
  unfolding a_def e_def
  by (simp add: process_match_ok [OF assms(1-5)] players_insert_match)

lemma process_match_matches:
  assumes "select_player d p1 = Some (r1, m1)" "select_player d p2 = Some (r2, m2)"
    "select_player d p3 = Some (r3, m3)" "select_player d p4 = Some (r4, m4)"
    "s1 + s2 \<noteq> 0"
  defines "a \<equiv> real_of_int s1 / real_of_int (s1 + s2)"
    and "e \<equiv> calculate_expected_score ((r1 + r2) / 2) ((r3 + r4) / 2)"
  shows "matches_table (snd (process_match d p1 p2 p3 p4 s1 s2)) =
     matches_table d @
       [\<lparr>p1_id = p1, p2_id = p2, p3_id = p3, p4_id = p4,
         score_team1 = s1, score_team2 = s2,
         rating_change_team1 = max 100 (r1 + team1_change m1 a e) - r1,
         rating_change_team2 = - (max 100 (r1 + team1_change m1 a e) - r1)\<rparr>]"
  unfolding a_def e_def
  by (simp add: process_match_ok [OF assms(1-5)] matches_insert_match matches_update_player)

lemma k_factor_values: "k_factor m = (if m < 5 then 64 else 32)"
  by (simp add: k_factor_def PROVISIONAL_LIMIT_def K_FACTOR_PROVISIONAL_def
      K_FACTOR_STANDARD_def)

lemma team2_change_neg: "team2_change m a e = - team1_change m a e"
  by (simp add: team1_change_def team2_change_def algebra_simps)


section \<open>The caller's validation\<close>

lemma player_dict_of_SomeD:
  "player_dict_of rows n = Some i \<Longrightarrow> \<exists>r \<in> set rows. name r = n \<and> player_id r = i"
  by (auto simp: player_dict_of_def dest!: map_of_SomeD)

lemma player_dict_of_inj:
  assumes "distinct (map player_id rows)"
    and "player_dict_of rows n = Some i" "player_dict_of rows n' = Some i"
  shows "n = n'"
proof -
  from assms(2) obtain r where r: "r \<in> set rows" "name r = n" "player_id r = i"
    by (blast dest: player_dict_of_SomeD)
  from assms(3) obtain r' where r': "r' \<in> set rows" "name r' = n'" "player_id r' = i"
    by (blast dest: player_dict_of_SomeD)
  from assms(1) have "inj_on player_id (set rows)" by (simp add: distinct_map)
  with r r' have "r = r'" by (auto dest: inj_onD)
  with r r' show ?thesis by simp
qed

lemma remdups_four: "length (remdups [a, b, c, d]) = 4 \<longleftrightarrow> distinct [a, b, c, d]"
  using length_remdups_eq [of "[a, b, c, d]"] remdups_id_iff_distinct [of "[a, b, c, d]"]
  by simp

section \<open>Evaluating the engine on the league\<close>

lemmas league_simps =
  league_db_def select_player_def calculate_expected_score_def team1_change_def
  team2_change_def k_factor_def K_FACTOR_STANDARD_def K_FACTOR_PROVISIONAL_def
  PROVISIONAL_LIMIT_def RATING_FLOOR_def

lemma league_dict:
  "player_dict_of (get_players league_db) ''Ana'' = Some 1
   \<and> player_dict_of (get_players league_db) ''Ben'' = Some 2
   \<and> player_dict_of (get_players league_db) ''Cal'' = Some 3
   \<and> player_dict_of (get_players league_db) ''Dee'' = Some 4"
  by code_simp

section \<open>Rounding to binary64\<close>

text \<open>
  The exponent found by \<open>binade\<close> brackets its argument, so rounding moves a number by
  at most half the spacing of its binade, and powers of two are not moved at all.
\<close>

lemma binade_bounds:
  "0 < x \<Longrightarrow> 2 powi (binade x) \<le> x \<and> x < 2 powi (binade x + 1)"
proof (induction x rule: binade.induct)
  case (1 x)
  show ?case
  proof (cases "2 \<le> x")
    case True
    with "1.prems" have ih: "2 powi (binade (x / 2)) \<le> x / 2 \<and> x / 2 < 2 powi (binade (x / 2) + 1)"
      using "1.IH"(1) by simp
    have b: "binade x = binade (x / 2) + 1"
      using True "1.prems" by (subst binade.simps) simp
    from ih show ?thesis
      unfolding b by (simp add: power_int_add field_simps)
  next
    case False
    show ?thesis
    proof (cases "x < 1")
      case True
      with False "1.prems" have ih:
        "2 powi (binade (2 * x)) \<le> 2 * x \<and> 2 * x < 2 powi (binade (2 * x) + 1)"
        using "1.IH"(2) by simp
      have b: "binade x = binade (2 * x) - 1"
        using True False "1.prems" by (subst binade.simps) simp
      from ih show ?thesis
        unfolding b by (simp add: power_int_add power_int_diff field_simps)
    next
      case nl: False
      have b: "binade x = 0"
        using nl False "1.prems" by (subst binade.simps) simp
      from nl False show ?thesis unfolding b by simp
    qed
  qed
qed

lemma binade_less:
  assumes "0 < x" "x < 2 powi n"
  shows "binade x < n"
proof (rule ccontr)
  assume "\<not> binade x < n"
  then have "n \<le> binade x" by simp
  then have "(2::real) powi n \<le> 2 powi (binade x)"
    by (intro power_int_increasing) simp_all
  also have "\<dots> \<le> x" using binade_bounds [OF assms(1)] by simp
  finally show False using assms(2) by simp
qed

lemma binade_power: "binade (2 powi n) = n"
proof -
  have pos: "(0::real) < 2 powi n" by simp
  from binade_bounds [OF pos]
  have lo: "(2::real) powi (binade (2 powi n)) \<le> 2 powi n"
    and hi: "(2::real) powi n < 2 powi (binade (2 powi n) + 1)" by simp_all
  have "binade (2 powi n) \<le> n"
  proof (rule ccontr)
    assume "\<not> binade (2 powi n) \<le> n"
    then have "n < binade (2 powi n)" by simp
    then have "(2::real) powi n < 2 powi (binade (2 powi n))"
      by (intro power_int_strict_increasing) simp_all
    with lo show False by simp
  qed
  moreover have "n \<le> binade (2 powi n)"
  proof (rule ccontr)
    assume "\<not> n \<le> binade (2 powi n)"
    then have "binade (2 powi n) + 1 \<le> n" by simp
    then have "(2::real) powi (binade (2 powi n) + 1) \<le> 2 powi n"
      by (intro power_int_increasing) simp_all
    with hi show False by simp
  qed
  ultimately show ?thesis by simp
qed

lemma round_half_even_err: "\<bar>real_of_int (round_half_even q) - q\<bar> \<le> 1 / 2"
  unfolding round_half_even_def Let_def by (auto simp: abs_le_iff)

lemma round_half_even_int: "round_half_even (real_of_int k) = k"
  by (simp add: round_half_even_def)

lemma round64_err:
  assumes "x \<noteq> 0"
  shows "\<bar>round64 x - x\<bar> \<le> 2 powi (binade \<bar>x\<bar> - 53)"
proof -
  define u :: real where "u = 2 powi (binade \<bar>x\<bar> - 52)"
  have upos: "0 < u" by (simp add: u_def)
  have r: "round64 x = u * real_of_int (round_half_even (x / u))"
    using assms by (simp add: round64_def u_def Let_def)
  have "round64 x - x = u * (real_of_int (round_half_even (x / u)) - x / u)"
    using upos by (simp add: r algebra_simps)
  then have "\<bar>round64 x - x\<bar> = u * \<bar>real_of_int (round_half_even (x / u)) - x / u\<bar>"
    using upos by (simp add: abs_mult)
  also have "\<dots> \<le> u * (1 / 2)"
    using upos round_half_even_err [of "x / u"] by (intro mult_left_mono) simp_all
  also have "\<dots> = 2 powi (binade \<bar>x\<bar> - 53)"
    unfolding u_def by (simp add: power_int_diff)
  finally show ?thesis .
qed

lemma round64_power: "round64 (2 powi n) = 2 powi n"
proof -
  have "(2::real) powi n / 2 powi (n - 52) = 2 powi 52"
    by (simp add: power_int_diff)
  also have "\<dots> = real_of_int (2 ^ 52)" by simp
  finally have q: "(2::real) powi n / 2 powi (n - 52) = real_of_int (2 ^ 52)" .
  have "round64 (2 powi n) = 2 powi (n - 52) * real_of_int (round_half_even (real_of_int (2 ^ 52)))"
    by (simp add: round64_def binade_power q Let_def del: of_int_power of_int_numeral)
  also have "\<dots> = 2 powi (n - 52) * 2 powi 52"
    by (simp only: round_half_even_int) simp
  also have "\<dots> = 2 powi n"
    by (simp add: power_int_diff)
  finally show ?thesis .
qed

lemma round64_minus: "round64 (- x) = - round64 x"
proof (cases "x = 0")
  case True
  then show ?thesis by (simp add: round64_def)
next
  case False
  have "round_half_even (- q) = - round_half_even q" for q
    unfolding round_half_even_def Let_def
    by (cases "q = real_of_int \<lfloor>q\<rfloor>") (auto simp: ceiling_def [symmetric] floor_minus ceiling_altdef)
  then show ?thesis using False by (simp add: round64_def Let_def)
qed

lemma round64_err_le:
  assumes "\<bar>x\<bar> \<le> 2 powi n"
  shows "\<bar>round64 x - x\<bar> \<le> 2 powi (n - 54)"
proof -
  consider "x = 0" | "x = 2 powi n" | "x = - (2 powi n)" | "x \<noteq> 0" "\<bar>x\<bar> < 2 powi n"
    using assms by fastforce
  then show ?thesis
  proof cases
    case 1
    then show ?thesis by (simp add: round64_def)
  next
    case 2
    then show ?thesis by (simp add: round64_power)
  next
    case 3
    then show ?thesis by (simp add: round64_minus round64_power)
  next
    case 4
    then have "binade \<bar>x\<bar> < n" by (intro binade_less) simp_all
    then have "binade \<bar>x\<bar> - 53 \<le> n - 54" by simp
    then have "(2::real) powi (binade \<bar>x\<bar> - 53) \<le> 2 powi (n - 54)"
      by (intro power_int_increasing) simp_all
    with round64_err [OF 4(1)] show ?thesis by linarith
  qed
qed

lemma round64_err_unit: "\<bar>x\<bar> \<le> 1 \<Longrightarrow> \<bar>round64 x - x\<bar> \<le> 1 / 2 ^ 54"
  using round64_err_le [of x 0] by simp

lemma round64_err_two: "\<bar>x\<bar> \<le> 2 \<Longrightarrow> \<bar>round64 x - x\<bar> \<le> 1 / 2 ^ 53"
  using round64_err_le [of x 1] by simp

lemma round64_err_128: "\<bar>x\<bar> \<le> 128 \<Longrightarrow> \<bar>round64 x - x\<bar> \<le> 1 / 2 ^ 47"
  using round64_err_le [of x 7] by simp

lemma k_factor_cases: "real_of_int (k_factor m) = 32 \<or> real_of_int (k_factor m) = 64"
  by (simp add: k_factor_values)

lemma fl_changes_near_opposite:
  assumes "0 \<le> x" "x \<le> 1" "0 \<le> y" "y \<le> 1"
  shows "\<bar>fl_team2_change m x y + fl_team1_change m x y\<bar> \<le> real_of_int (k_factor m) / 2 ^ 50"
proof -
  define K where "K = real_of_int (k_factor m)"
  define z where "z = round64 (x - y)"
  define p where "p = round64 (1 - x)"
  define q where "q = round64 (1 - y)"
  define w where "w = round64 (p - q)"
  define t :: real where "t = 1 / 2 ^ 54"
  have t: "0 < t" "t \<le> 1 / 4" by (simp_all add: t_def)
  have t53: "1 / 2 ^ 53 = 2 * t" and t47: "1 / 2 ^ 47 = 128 * t"
    and t50: "K / 2 ^ 50 = 16 * K * t"
    by (simp_all add: t_def)
  have K: "K = 32 \<or> K = 64" unfolding K_def by (rule k_factor_cases)
  have "\<bar>x - y\<bar> \<le> 1" using assms by linarith
  then have ez: "\<bar>z - (x - y)\<bar> \<le> t"
    unfolding z_def t_def by (rule round64_err_unit)
  have "\<bar>1 - x\<bar> \<le> 1" using assms by linarith
  then have ep: "\<bar>p - (1 - x)\<bar> \<le> t"
    unfolding p_def t_def by (rule round64_err_unit)
  have "\<bar>1 - y\<bar> \<le> 1" using assms by linarith
  then have eq: "\<bar>q - (1 - y)\<bar> \<le> t"
    unfolding q_def t_def by (rule round64_err_unit)
  have "\<bar>p - q\<bar> \<le> 2" using ep eq assms t by linarith
  then have "\<bar>w - (p - q)\<bar> \<le> 1 / 2 ^ 53"
    unfolding w_def by (rule round64_err_two)
  then have ew: "\<bar>w - (p - q)\<bar> \<le> 2 * t" by (simp only: t53)
  have wz: "\<bar>w + z\<bar> \<le> 5 * t" using ez ep eq ew by linarith
  have zb: "\<bar>z\<bar> \<le> 2" using ez assms t by linarith
  have wb: "\<bar>w\<bar> \<le> 2" using ew ep eq assms t by linarith
  have "\<bar>K * z\<bar> \<le> 128" using K zb by (auto simp: abs_mult)
  then have "\<bar>round64 (K * z) - K * z\<bar> \<le> 1 / 2 ^ 47" by (rule round64_err_128)
  then have e1: "\<bar>round64 (K * z) - K * z\<bar> \<le> 128 * t" by (simp only: t47)
  have "\<bar>K * w\<bar> \<le> 128" using K wb by (auto simp: abs_mult)
  then have "\<bar>round64 (K * w) - K * w\<bar> \<le> 1 / 2 ^ 47" by (rule round64_err_128)
  then have e2: "\<bar>round64 (K * w) - K * w\<bar> \<le> 128 * t" by (simp only: t47)
  have "\<bar>round64 (K * w) + round64 (K * z)\<bar> \<le> 16 * K * t"
    using K
  proof
    assume k: "K = 32"
    from wz have "\<bar>32 * w + 32 * z\<bar> \<le> 160 * t" by linarith
    with e1 e2 t show ?thesis unfolding k by linarith
  next
    assume k: "K = 64"
    from wz have "\<bar>64 * w + 64 * z\<bar> \<le> 320 * t" by linarith
    with e1 e2 t show ?thesis unfolding k by linarith
  qed
  then have "\<bar>round64 (K * w) + round64 (K * z)\<bar> \<le> K / 2 ^ 50"
    by (simp only: t50)
  then show ?thesis
    by (simp only: fl_team1_change_def fl_team2_change_def K_def z_def w_def p_def q_def)
qed

lemma fl_changes_one_third:
  "fl_actual_t1 1 3 = 6004799503160661 / 2 ^ 54"
  "fl_team1_change 0 (fl_actual_t1 1 3) (1 / 2) = - (3002399751580331 / 2 ^ 48)"
  "fl_team2_change 0 (fl_actual_t1 1 3) (1 / 2) = 3002399751580332 / 2 ^ 48"
  by code_simp+

section \<open>The claims about \<^verbatim>\<open>process_match\<close>\<close>

text \<open>
  In the theorems below a call succeeds exactly when the four ids resolve and the scores
  do not add up to zero. \<open>a\<close> is \<^verbatim>\<open>actual_t1\<close>, the score share of Team 1, and
  \<open>e\<close> is \<^verbatim>\<open>expected_t1\<close>, computed from the two team means.
\<close>

text \<open>
  Claim C1. After every successful call, each participant's stored rating is
  \<open>max RATING_FLOOR (old rating + change)\<close>, where the change is the one computed for
  a slot that player occupies, so it is never below 100. With four distinct ids each
  player occupies one slot and the four new ratings are the four floored sums. A player
  at 100 whose change is \<open>-30\<close> stays at 100.
\<close>

theorem process_match_rating_floor:
  assumes "select_player d p1 = Some (r1, m1)" "select_player d p2 = Some (r2, m2)"
    "select_player d p3 = Some (r3, m3)" "select_player d p4 = Some (r4, m4)"
    "score_t1 + score_t2 \<noteq> 0"
  defines "a \<equiv> real_of_int score_t1 / real_of_int (score_t1 + score_t2)"
    and "e \<equiv> calculate_expected_score ((r1 + r2) / 2) ((r3 + r4) / 2)"
    and "d' \<equiv> snd (process_match d p1 p2 p3 p4 score_t1 score_t2)"
  shows "(\<forall>p \<in> {p1, p2, p3, p4}. \<exists>r m c.
            select_player d p = Some (r, m)
          \<and> (p \<in> {p1, p2} \<and> c = team1_change m a e
               \<or> p \<in> {p3, p4} \<and> c = team2_change m a e)
          \<and> select_player d' p = Some (max (real_of_int RATING_FLOOR) (r + c), m + 1)
          \<and> real_of_int RATING_FLOOR \<le> max (real_of_int RATING_FLOOR) (r + c))
     \<and> (distinct [p1, p2, p3, p4] \<longrightarrow>
           select_player d' p1
             = Some (max (real_of_int RATING_FLOOR) (r1 + team1_change m1 a e), m1 + 1)
         \<and> select_player d' p2
             = Some (max (real_of_int RATING_FLOOR) (r2 + team1_change m2 a e), m2 + 1)
         \<and> select_player d' p3
             = Some (max (real_of_int RATING_FLOOR) (r3 + team2_change m3 a e), m3 + 1)
         \<and> select_player d' p4
             = Some (max (real_of_int RATING_FLOOR) (r4 + team2_change m4 a e), m4 + 1))"
proof -
  note sel = process_match_select [OF assms(1-5), folded a_def e_def d'_def]
  have "\<exists>r m c. select_player d p = Some (r, m)
          \<and> (p \<in> {p1, p2} \<and> c = team1_change m a e
               \<or> p \<in> {p3, p4} \<and> c = team2_change m a e)
          \<and> select_player d' p = Some (max (real_of_int RATING_FLOOR) (r + c), m + 1)
          \<and> real_of_int RATING_FLOOR \<le> max (real_of_int RATING_FLOOR) (r + c)"
    if pin: "p \<in> {p1, p2, p3, p4}" for p
  proof -
    consider "p = p4" | "p \<noteq> p4" "p = p3" | "p \<noteq> p4" "p \<noteq> p3" "p = p2"
      | "p \<noteq> p4" "p \<noteq> p3" "p \<noteq> p2" "p = p1"
      using pin by blast
    then show ?thesis
    proof cases
      case 1
      then show ?thesis using assms(4)
        by (intro exI [of _ r4] exI [of _ m4] exI [of _ "team2_change m4 a e"])
          (simp add: sel RATING_FLOOR_def)
    next
      case 2
      then show ?thesis using assms(3)
        by (intro exI [of _ r3] exI [of _ m3] exI [of _ "team2_change m3 a e"])
          (simp add: sel RATING_FLOOR_def)
    next
      case 3
      then show ?thesis using assms(2)
        by (intro exI [of _ r2] exI [of _ m2] exI [of _ "team1_change m2 a e"])
          (simp add: sel RATING_FLOOR_def)
    next
      case 4
      then show ?thesis using assms(1)
        by (intro exI [of _ r1] exI [of _ m1] exI [of _ "team1_change m1 a e"])
          (simp add: sel RATING_FLOOR_def)
    qed
  qed
  moreover have "select_player d' p1
             = Some (max (real_of_int RATING_FLOOR) (r1 + team1_change m1 a e), m1 + 1)
         \<and> select_player d' p2
             = Some (max (real_of_int RATING_FLOOR) (r2 + team1_change m2 a e), m2 + 1)
         \<and> select_player d' p3
             = Some (max (real_of_int RATING_FLOOR) (r3 + team2_change m3 a e), m3 + 1)
         \<and> select_player d' p4
             = Some (max (real_of_int RATING_FLOOR) (r4 + team2_change m4 a e), m4 + 1)"
    if "distinct [p1, p2, p3, p4]"
    using that by (simp add: sel RATING_FLOOR_def)
  ultimately show ?thesis by blast
qed

theorem process_match_rating_floor_witness:
  "select_player (snd (process_match league_db 5 6 7 8 1 31)) 5 = Some (100, 1)
   \<and> 100 + team1_change 0 (1 / 32) (1 / 2) = 70
   \<and> select_player (snd (process_match league_db 5 6 7 8 1 31)) 6 = Some (100, 11)
   \<and> select_player (snd (process_match league_db 5 6 7 8 1 31)) 7 = Some (130, 1)
   \<and> select_player (snd (process_match league_db 5 6 7 8 1 31)) 8 = Some (115, 8)"
  using process_match_rating_floor [of league_db 5 100 0 6 100 10 7 100 0 8 100 7 1 31]
  by (simp add: league_simps)

text \<open>
  Claim C3. A call with both scores zero changes nothing in the database, and when the
  four players exist it returns \<^verbatim>\<open>(False, "Total points cannot be zero.")\<close>, the
  code's invalid-score result.
\<close>

theorem process_match_zero_score:
  "snd (process_match d p1 p2 p3 p4 0 0) = d
   \<and> ((\<forall>p \<in> {p1, p2, p3, p4}. select_player d p \<noteq> None) \<longrightarrow>
        process_match d p1 p2 p3 p4 0 0
          = (Returned (False, Text ''Total points cannot be zero.''), d))"
  by (auto simp: process_match_def Let_def split: option.splits)

theorem process_match_zero_score_witness:
  "process_match league_db 1 2 3 4 0 0
     = (Returned (False, Text ''Total points cannot be zero.''), league_db)
   \<and> snd (process_match league_db 1 2 3 99 0 0) = league_db"
  using process_match_zero_score [of league_db 1 2 3 4]
    process_match_zero_score [of league_db 1 2 3 99]
  by (simp add: league_simps)

text \<open>
  Claim C6. A successful call on four distinct ids leaves each of the four with
  \<^verbatim>\<open>matches_played\<close> one higher, and every other player as before. A call
  that does not return success leaves the whole database as it was.
\<close>

theorem process_match_matches_played:
  fixes d p1 p2 p3 p4 score_t1 score_t2
  defines "res \<equiv> process_match d p1 p2 p3 p4 score_t1 score_t2"
  shows "(select_player d p1 = Some (r1, m1) \<and> select_player d p2 = Some (r2, m2)
          \<and> select_player d p3 = Some (r3, m3) \<and> select_player d p4 = Some (r4, m4)
          \<and> score_t1 + score_t2 \<noteq> 0 \<and> distinct [p1, p2, p3, p4] \<longrightarrow>
            (\<exists>x. fst res = Returned (True, x))
          \<and> map_option snd (select_player (snd res) p1) = Some (m1 + 1)
          \<and> map_option snd (select_player (snd res) p2) = Some (m2 + 1)
          \<and> map_option snd (select_player (snd res) p3) = Some (m3 + 1)
          \<and> map_option snd (select_player (snd res) p4) = Some (m4 + 1)
          \<and> (\<forall>k. k \<notin> {p1, p2, p3, p4} \<longrightarrow>
                 select_player (snd res) k = select_player d k))
     \<and> ((\<forall>x. fst res \<noteq> Returned (True, x)) \<longrightarrow> snd res = d)"
proof -
  have "(\<exists>x. fst res = Returned (True, x))
          \<and> map_option snd (select_player (snd res) p1) = Some (m1 + 1)
          \<and> map_option snd (select_player (snd res) p2) = Some (m2 + 1)
          \<and> map_option snd (select_player (snd res) p3) = Some (m3 + 1)
          \<and> map_option snd (select_player (snd res) p4) = Some (m4 + 1)
          \<and> (\<forall>k. k \<notin> {p1, p2, p3, p4} \<longrightarrow>
                 select_player (snd res) k = select_player d k)"
    if s: "select_player d p1 = Some (r1, m1)" "select_player d p2 = Some (r2, m2)"
      "select_player d p3 = Some (r3, m3)" "select_player d p4 = Some (r4, m4)"
      "score_t1 + score_t2 \<noteq> 0" and dist: "distinct [p1, p2, p3, p4]"
  proof -
    note sel = process_match_select [OF s, folded res_def]
    have "\<exists>x. fst res = Returned (True, x)"
      unfolding res_def using s by (simp add: process_match_success_iff)
    then show ?thesis using dist by (simp add: sel)
  qed
  moreover have "snd res = d" if "\<forall>x. fst res \<noteq> Returned (True, x)"
    using that unfolding res_def by (rule process_match_failure_unchanged)
  ultimately show ?thesis by blast
qed

theorem process_match_matches_played_witness:
  "map_option snd (select_player (snd (process_match league_db 1 2 3 4 10 0)) 1) = Some 1
   \<and> map_option snd (select_player (snd (process_match league_db 1 2 3 4 10 0)) 2) = Some 13
   \<and> map_option snd (select_player (snd (process_match league_db 1 2 3 4 10 0)) 3) = Some 5
   \<and> map_option snd (select_player (snd (process_match league_db 1 2 3 4 10 0)) 4) = Some 6
   \<and> select_player (snd (process_match league_db 1 2 3 4 10 0)) 5 = Some (100, 0)
   \<and> snd (process_match league_db 1 2 3 4 0 0) = league_db
   \<and> snd (process_match league_db 1 2 3 99 10 0) = league_db"
  using process_match_matches_played [of league_db 1 500 0 2 500 12 3 500 4 4 500 5 10 0]
    process_match_matches_played [of league_db 1 _ _ 2 _ _ 3 _ _ 4 _ _ 0 0]
    process_match_matches_played [of league_db 1 _ _ 2 _ _ 3 _ _ 99 _ _ 10 0]
    process_match_zero [of league_db 1 500 0 2 500 12 3 500 4 4 500 5 0 0]
    process_match_missing [of league_db 1 2 3 99 10 0]
  by (simp add: league_simps)

text \<open>
  Claim C4. The four rows written by a successful call use, for each player, the factor
  64 when that player's own \<^verbatim>\<open>matches_played\<close>, as read before the match, is below
  5, and 32 otherwise; the partner's and the opponents' counters play no part. With four
  distinct ids these are the four ratings read back. For one and the same surprisal a
  provisional player's change is twice a standard player's.
\<close>

theorem k_factor_per_player:
  assumes "select_player d p1 = Some (r1, m1)" "select_player d p2 = Some (r2, m2)"
    "select_player d p3 = Some (r3, m3)" "select_player d p4 = Some (r4, m4)"
    "score_t1 + score_t2 \<noteq> 0"
  defines "a \<equiv> real_of_int score_t1 / real_of_int (score_t1 + score_t2)"
    and "e \<equiv> calculate_expected_score ((r1 + r2) / 2) ((r3 + r4) / 2)"
    and "d' \<equiv> snd (process_match d p1 p2 p3 p4 score_t1 score_t2)"
  shows "players_table d' = players_table (foldl update_player d
           [(p1, max 100 (r1 + (if m1 < 5 then 64 else 32) * (a - e)), m1 + 1),
            (p2, max 100 (r2 + (if m2 < 5 then 64 else 32) * (a - e)), m2 + 1),
            (p3, max 100 (r3 + (if m3 < 5 then 64 else 32) * ((1 - a) - (1 - e))), m3 + 1),
            (p4, max 100 (r4 + (if m4 < 5 then 64 else 32) * ((1 - a) - (1 - e))), m4 + 1)])
     \<and> (distinct [p1, p2, p3, p4] \<longrightarrow>
          select_player d' p1
            = Some (max 100 (r1 + (if m1 < 5 then 64 else 32) * (a - e)), m1 + 1)
        \<and> select_player d' p2
            = Some (max 100 (r2 + (if m2 < 5 then 64 else 32) * (a - e)), m2 + 1)
        \<and> select_player d' p3
            = Some (max 100 (r3 + (if m3 < 5 then 64 else 32) * ((1 - a) - (1 - e))), m3 + 1)
        \<and> select_player d' p4
            = Some (max 100 (r4 + (if m4 < 5 then 64 else 32) * ((1 - a) - (1 - e))), m4 + 1))
     \<and> (\<forall>m n. m < 5 \<and> 5 \<le> n \<longrightarrow>
            k_factor m = 64 \<and> k_factor n = 32
          \<and> team1_change m a e = 2 * team1_change n a e
          \<and> team2_change m a e = 2 * team2_change n a e)"
proof -
  note sel = process_match_select [OF assms(1-5), folded a_def e_def d'_def]
  note pt = process_match_players [OF assms(1-5), folded a_def e_def d'_def]
  have c1: "team1_change m a e = (if m < 5 then 64 else 32) * (a - e)" for m
    by (simp add: team1_change_def k_factor_values)
  have c2: "team2_change m a e = (if m < 5 then 64 else 32) * ((1 - a) - (1 - e))" for m
    by (simp add: team2_change_def k_factor_values)
  have "players_table d' = players_table (foldl update_player d
           [(p1, max 100 (r1 + (if m1 < 5 then 64 else 32) * (a - e)), m1 + 1),
            (p2, max 100 (r2 + (if m2 < 5 then 64 else 32) * (a - e)), m2 + 1),
            (p3, max 100 (r3 + (if m3 < 5 then 64 else 32) * ((1 - a) - (1 - e))), m3 + 1),
            (p4, max 100 (r4 + (if m4 < 5 then 64 else 32) * ((1 - a) - (1 - e))), m4 + 1)])"
    by (simp only: pt c1 c2)
  moreover have "select_player d' p1
            = Some (max 100 (r1 + (if m1 < 5 then 64 else 32) * (a - e)), m1 + 1)
        \<and> select_player d' p2
            = Some (max 100 (r2 + (if m2 < 5 then 64 else 32) * (a - e)), m2 + 1)
        \<and> select_player d' p3
            = Some (max 100 (r3 + (if m3 < 5 then 64 else 32) * ((1 - a) - (1 - e))), m3 + 1)
        \<and> select_player d' p4
            = Some (max 100 (r4 + (if m4 < 5 then 64 else 32) * ((1 - a) - (1 - e))), m4 + 1)"
    if "distinct [p1, p2, p3, p4]"
    using that by (simp add: sel c1 c2)
  moreover have "k_factor m = 64 \<and> k_factor n = 32
          \<and> team1_change m a e = 2 * team1_change n a e
          \<and> team2_change m a e = 2 * team2_change n a e" if "m < 5 \<and> 5 \<le> n" for m n
    using that by (simp add: team1_change_def team2_change_def k_factor_values)
  ultimately show ?thesis by blast
qed

theorem k_factor_per_player_witness:
  "select_player (snd (process_match league_db 1 2 3 4 10 0)) 1 = Some (532, 1)
   \<and> select_player (snd (process_match league_db 1 2 3 4 10 0)) 2 = Some (516, 13)
   \<and> select_player (snd (process_match league_db 1 2 3 4 10 0)) 3 = Some (468, 5)
   \<and> select_player (snd (process_match league_db 1 2 3 4 10 0)) 4 = Some (484, 6)
   \<and> team1_change 4 1 (1 / 2) = 2 * team1_change 5 1 (1 / 2)"
  using k_factor_per_player [of league_db 1 500 0 2 500 12 3 500 4 4 500 5 10 0]
  by (simp add: league_simps update_player_def)

text \<open>
  Claim C5, as the code has it. With the team ratings the means of the two players'
  ratings and the actual outcome \<open>score_t1 / (score_t1 + score_t2)\<close>, a Team-1 member's
  change before the floor is \<open>K * (a - e)\<close> and a Team-2 member's is
  \<open>K * ((1 - a) - (1 - e))\<close>, each with the player's own \<open>K\<close>. Read over the reals
  the second is \<open>K * - (a - e)\<close>, the negation of the first. Computed in binary64, as the
  program computes it, the Team-2 change is the negation of the Team-1 change for the
  same \<open>K\<close> only up to rounding: for an actual and an expected outcome between 0 and 1
  the two add up to at most \<open>K / 2 ^ 50\<close> in absolute value.
\<close>

theorem team_changes_opposite:
  assumes "select_player d p1 = Some (r1, m1)" "select_player d p2 = Some (r2, m2)"
    "select_player d p3 = Some (r3, m3)" "select_player d p4 = Some (r4, m4)"
    "score_t1 + score_t2 \<noteq> 0"
  defines "a \<equiv> real_of_int score_t1 / real_of_int (score_t1 + score_t2)"
    and "e \<equiv> calculate_expected_score ((r1 + r2) / 2) ((r3 + r4) / 2)"
    and "d' \<equiv> snd (process_match d p1 p2 p3 p4 score_t1 score_t2)"
  shows "players_table d' = players_table (foldl update_player d
           [(p1, max 100 (r1 + real_of_int (k_factor m1) * (a - e)), m1 + 1),
            (p2, max 100 (r2 + real_of_int (k_factor m2) * (a - e)), m2 + 1),
            (p3, max 100 (r3 + real_of_int (k_factor m3) * ((1 - a) - (1 - e))), m3 + 1),
            (p4, max 100 (r4 + real_of_int (k_factor m4) * ((1 - a) - (1 - e))), m4 + 1)])
     \<and> (distinct [p1, p2, p3, p4] \<longrightarrow>
          map_option fst (select_player d' p1)
            = Some (max 100 (r1 + real_of_int (k_factor m1) * (a - e)))
        \<and> map_option fst (select_player d' p2)
            = Some (max 100 (r2 + real_of_int (k_factor m2) * (a - e)))
        \<and> map_option fst (select_player d' p3)
            = Some (max 100 (r3 + real_of_int (k_factor m3) * ((1 - a) - (1 - e))))
        \<and> map_option fst (select_player d' p4)
            = Some (max 100 (r4 + real_of_int (k_factor m4) * ((1 - a) - (1 - e)))))
     \<and> (\<forall>m. real_of_int (k_factor m) * ((1 - a) - (1 - e))
               = real_of_int (k_factor m) * - (a - e)
            \<and> team2_change m a e = - team1_change m a e)
     \<and> (\<forall>m x y. 0 \<le> x \<and> x \<le> 1 \<and> 0 \<le> y \<and> y \<le> 1 \<longrightarrow>
            \<bar>fl_team2_change m x y + fl_team1_change m x y\<bar>
              \<le> real_of_int (k_factor m) / 2 ^ 50)"
proof -
  note sel = process_match_select [OF assms(1-5), folded a_def e_def d'_def]
  note pt = process_match_players [OF assms(1-5), folded a_def e_def d'_def]
  have "players_table d' = players_table (foldl update_player d
           [(p1, max 100 (r1 + real_of_int (k_factor m1) * (a - e)), m1 + 1),
            (p2, max 100 (r2 + real_of_int (k_factor m2) * (a - e)), m2 + 1),
            (p3, max 100 (r3 + real_of_int (k_factor m3) * ((1 - a) - (1 - e))), m3 + 1),
            (p4, max 100 (r4 + real_of_int (k_factor m4) * ((1 - a) - (1 - e))), m4 + 1)])"
    by (simp only: pt team1_change_def team2_change_def)
  moreover have "map_option fst (select_player d' p1)
            = Some (max 100 (r1 + real_of_int (k_factor m1) * (a - e)))
        \<and> map_option fst (select_player d' p2)
            = Some (max 100 (r2 + real_of_int (k_factor m2) * (a - e)))
        \<and> map_option fst (select_player d' p3)
            = Some (max 100 (r3 + real_of_int (k_factor m3) * ((1 - a) - (1 - e))))
        \<and> map_option fst (select_player d' p4)
            = Some (max 100 (r4 + real_of_int (k_factor m4) * ((1 - a) - (1 - e))))"
    if "distinct [p1, p2, p3, p4]"
    using that by (simp add: sel team1_change_def team2_change_def)
  moreover have "real_of_int (k_factor m) * ((1 - a) - (1 - e))
               = real_of_int (k_factor m) * - (a - e)
            \<and> team2_change m a e = - team1_change m a e" for m
    by (simp add: team2_change_neg)
  moreover have "\<bar>fl_team2_change m x y + fl_team1_change m x y\<bar>
              \<le> real_of_int (k_factor m) / 2 ^ 50"
    if "0 \<le> x \<and> x \<le> 1 \<and> 0 \<le> y \<and> y \<le> 1" for m x y
    using that by (intro fl_changes_near_opposite) simp_all
  ultimately show ?thesis by blast
qed

theorem team_changes_opposite_witness:
  "map_option fst (select_player (snd (process_match league_db 1 2 3 4 7 3)) 1)
     = Some (500 + 64 * (7 / 10 - 1 / 2))
   \<and> map_option fst (select_player (snd (process_match league_db 1 2 3 4 7 3)) 3)
     = Some (500 - 64 * (7 / 10 - 1 / 2))
   \<and> team2_change 4 (7 / 10) (1 / 2) = - team1_change 4 (7 / 10) (1 / 2)
   \<and> 0 \<le> fl_actual_t1 1 3 \<and> fl_actual_t1 1 3 \<le> 1
   \<and> \<bar>fl_team2_change 0 (fl_actual_t1 1 3) (1 / 2)
        + fl_team1_change 0 (fl_actual_t1 1 3) (1 / 2)\<bar> \<le> 64 / 2 ^ 50"
proof -
  have sel: "select_player league_db 1 = Some (500, 0)"
    "select_player league_db 2 = Some (500, 12)"
    "select_player league_db 3 = Some (500, 4)"
    "select_player league_db 4 = Some (500, 5)"
    by (simp_all add: league_simps)
  have nz: "(7::int) + 3 \<noteq> 0" by simp
  note t = team_changes_opposite [OF sel nz]
  have unit: "0 \<le> fl_actual_t1 1 3 \<and> fl_actual_t1 1 3 \<le> 1"
    by (simp add: fl_changes_one_third(1))
  from t have one: "map_option fst (select_player (snd (process_match league_db 1 2 3 4 7 3)) 1)
     = Some (500 + 64 * (7 / 10 - 1 / 2))"
    and three: "map_option fst (select_player (snd (process_match league_db 1 2 3 4 7 3)) 3)
     = Some (500 - 64 * (7 / 10 - 1 / 2))"
    by (simp_all add: calculate_expected_score_def k_factor_values)
  from t have neg: "team2_change 4 (7 / 10) (1 / 2) = - team1_change 4 (7 / 10) (1 / 2)"
    by (simp add: calculate_expected_score_def)
  note bound = t [THEN conjunct2, THEN conjunct2, THEN conjunct2, rule_format,
      of "fl_actual_t1 1 3" "1 / 2" 0]
  from unit have "0 \<le> fl_actual_t1 1 3 \<and> fl_actual_t1 1 3 \<le> 1
      \<and> (0::real) \<le> 1 / 2 \<and> (1::real) / 2 \<le> 1"
    by simp
  then have "\<bar>fl_team2_change 0 (fl_actual_t1 1 3) (1 / 2)
        + fl_team1_change 0 (fl_actual_t1 1 3) (1 / 2)\<bar> \<le> real_of_int (k_factor 0) / 2 ^ 50"
    by (rule bound)
  then have near: "\<bar>fl_team2_change 0 (fl_actual_t1 1 3) (1 / 2)
        + fl_team1_change 0 (fl_actual_t1 1 3) (1 / 2)\<bar> \<le> 64 / 2 ^ 50"
    by (simp add: k_factor_values)
  from one three neg unit near show ?thesis by blast
qed

text \<open>
  Claim C5 as stated fails in the program's arithmetic: between equal teams at 500 and
  with the score 1 to 2, a provisional Team-1 player's change is
  \<open>- 3002399751580331 / 2 ^ 48\<close> (about -10.666666666666668) and a provisional Team-2
  player's is \<open>3002399751580332 / 2 ^ 48\<close> (about 10.666666666666671): rounding
  \<open>1 - actual_t1\<close> moves the last bit. The expected outcome is one half, in binary64 as
  over the reals.
\<close>

theorem team2_change_not_exact_negation:
  "fl_team1_change 0 (fl_actual_t1 1 3)
       (calculate_expected_score ((500 + 500) / 2) ((500 + 500) / 2))
     = - (3002399751580331 / 2 ^ 48)
   \<and> fl_team2_change 0 (fl_actual_t1 1 3)
       (calculate_expected_score ((500 + 500) / 2) ((500 + 500) / 2))
     = 3002399751580332 / 2 ^ 48
   \<and> fl_team2_change 0 (fl_actual_t1 1 3)
       (calculate_expected_score ((500 + 500) / 2) ((500 + 500) / 2))
     \<noteq> - fl_team1_change 0 (fl_actual_t1 1 3)
           (calculate_expected_score ((500 + 500) / 2) ((500 + 500) / 2))"
proof -
  have e: "calculate_expected_score ((500 + 500) / 2) ((500 + 500) / 2) = 1 / 2"
    by (simp add: calculate_expected_score_def)
  show ?thesis unfolding e by (simp only: fl_changes_one_third(2,3)) simp
qed

text \<open>
  Claim C9. The match row written by a successful call records as
  \<^verbatim>\<open>rating_change_team1\<close> the floored new rating computed for the first Team-1
  player minus that player's old rating, and as \<^verbatim>\<open>rating_change_team2\<close> its
  negation. When the first Team-1 player is not also on Team 2, this is the difference
  between the rating stored after the call and the rating stored before. Other
  participants may have moved by other amounts.
\<close>

theorem match_record_reference_change:
  assumes "select_player d p1 = Some (r1, m1)" "select_player d p2 = Some (r2, m2)"
    "select_player d p3 = Some (r3, m3)" "select_player d p4 = Some (r4, m4)"
    "score_t1 + score_t2 \<noteq> 0"
  defines "a \<equiv> real_of_int score_t1 / real_of_int (score_t1 + score_t2)"
    and "e \<equiv> calculate_expected_score ((r1 + r2) / 2) ((r3 + r4) / 2)"
    and "d' \<equiv> snd (process_match d p1 p2 p3 p4 score_t1 score_t2)"
  defines "applied \<equiv> max (real_of_int RATING_FLOOR) (r1 + team1_change m1 a e) - r1"
  shows "matches_table d' = matches_table d @
           [\<lparr>p1_id = p1, p2_id = p2, p3_id = p3, p4_id = p4,
             score_team1 = score_t1, score_team2 = score_t2,
             rating_change_team1 = applied, rating_change_team2 = - applied\<rparr>]
     \<and> (p1 \<noteq> p3 \<and> p1 \<noteq> p4 \<longrightarrow>
          map_option fst (select_player d' p1) = Some (r1 + applied))"
proof -
  note sel = process_match_select [OF assms(1-5), folded a_def e_def d'_def]
  note mt = process_match_matches [OF assms(1-5), folded a_def e_def d'_def]
  have "matches_table d' = matches_table d @
           [\<lparr>p1_id = p1, p2_id = p2, p3_id = p3, p4_id = p4,
             score_team1 = score_t1, score_team2 = score_t2,
             rating_change_team1 = applied, rating_change_team2 = - applied\<rparr>]"
    by (simp add: mt applied_def RATING_FLOOR_def)
  moreover have "map_option fst (select_player d' p1) = Some (r1 + applied)"
    if "p1 \<noteq> p3 \<and> p1 \<noteq> p4"
  proof (cases "p1 = p2")
    case True
    with assms(1,2) have "r2 = r1" "m2 = m1" by simp_all
    with True that show ?thesis by (simp add: sel applied_def RATING_FLOOR_def)
  next
    case False
    with that show ?thesis by (simp add: sel applied_def RATING_FLOOR_def)
  qed
  ultimately show ?thesis by blast
qed

theorem match_record_reference_change_witness:
  "matches_table (snd (process_match league_db 1 2 3 4 10 0))
     = [\<lparr>p1_id = 1, p2_id = 2, p3_id = 3, p4_id = 4, score_team1 = 10, score_team2 = 0,
         rating_change_team1 = 32, rating_change_team2 = - 32\<rparr>]
   \<and> map_option fst (select_player (snd (process_match league_db 1 2 3 4 10 0)) 1)
       = Some (500 + 32)
   \<and> select_player (snd (process_match league_db 1 2 3 4 10 0)) 2 = Some (500 + 16, 13)
   \<and> select_player (snd (process_match league_db 1 2 3 4 10 0)) 4 = Some (500 - 16, 6)"
  using match_record_reference_change [of league_db 1 500 0 2 500 12 3 500 4 4 500 5 10 0]
    process_match_select [of league_db 1 500 0 2 500 12 3 500 4 4 500 5 10 0]
  by (simp add: league_simps)



section \<open>Repeated and missing players\<close>

text \<open>
  Claim C7, as the code has it. \<^verbatim>\<open>process_match\<close> does not compare the four ids:
  whenever they resolve and the scores do not add up to zero it returns success and
  appends a match row, repeated ids or not. The comparison is made by its caller: the
  Record Match page answers a selection of fewer than four distinct names with an error
  and leaves the database alone, and four distinct names that it looks up in a table with
  unique ids give four distinct ids.
\<close>

theorem distinctness_checked_by_caller:
  fixes score_t1 score_t2 :: int and r1 r2 r3 r4 :: real
  defines "a \<equiv> real_of_int score_t1 / real_of_int (score_t1 + score_t2)"
    and "e \<equiv> calculate_expected_score ((r1 + r2) / 2) ((r3 + r4) / 2)"
  shows
  "(select_player d p1 \<noteq> None \<and> select_player d p2 \<noteq> None
      \<and> select_player d p3 \<noteq> None \<and> select_player d p4 \<noteq> None
      \<and> score_t1 + score_t2 \<noteq> 0 \<longrightarrow>
        (\<exists>x. fst (process_match d p1 p2 p3 p4 score_t1 score_t2) = Returned (True, x))
      \<and> length (matches_table (snd (process_match d p1 p2 p3 p4 score_t1 score_t2)))
          = length (matches_table d) + 1)
   \<and> (4 \<le> length (players_table d) \<and> \<not> distinct [t1_p1, t1_p2, t2_p1, t2_p2] \<longrightarrow>
        main_record_match d t1_p1 t1_p2 t2_p1 t2_p2 score_t1 score_t2
          = (Returned (St_error (Text ''Error: You selected the same player multiple times.'')),
             d))
   \<and> (4 \<le> length (players_table d) \<and> distinct [t1_p1, t1_p2, t2_p1, t2_p2]
      \<and> \<not> (score_t1 = 0 \<and> score_t2 = 0)
      \<and> player_dict_of (get_players d) t1_p1 = Some p1
      \<and> player_dict_of (get_players d) t1_p2 = Some p2
      \<and> player_dict_of (get_players d) t2_p1 = Some p3
      \<and> player_dict_of (get_players d) t2_p2 = Some p4 \<longrightarrow>
        main_record_match d t1_p1 t1_p2 t2_p1 t2_p2 score_t1 score_t2
          = (case process_match d p1 p2 p3 p4 score_t1 score_t2 of
               (Raised ex, d') \<Rightarrow> (Raised ex, d')
             | (Returned (success, msg), d') \<Rightarrow>
                 (Returned (if success then St_success msg else St_error msg), d'))
      \<and> (distinct (map player_id (players_table d)) \<longrightarrow> distinct [p1, p2, p3, p4]))
   \<and> (select_player d p1 = Some (r1, m1) \<and> select_player d p2 = Some (r2, m2)
      \<and> select_player d p3 = Some (r3, m3) \<and> select_player d p4 = Some (r4, m4)
      \<and> score_t1 + score_t2 \<noteq> 0 \<longrightarrow>
        snd (process_match d p1 p2 p3 p4 score_t1 score_t2)
          = insert_match
              (foldl update_player d
                 [(p1, max 100 (r1 + team1_change m1 a e), m1 + 1),
                  (p2, max 100 (r2 + team1_change m2 a e), m2 + 1),
                  (p3, max 100 (r3 + team2_change m3 a e), m3 + 1),
                  (p4, max 100 (r4 + team2_change m4 a e), m4 + 1)])
              \<lparr>p1_id = p1, p2_id = p2, p3_id = p3, p4_id = p4,
               score_team1 = score_t1, score_team2 = score_t2,
               rating_change_team1 = max 100 (r1 + team1_change m1 a e) - r1,
               rating_change_team2 = - (max 100 (r1 + team1_change m1 a e) - r1)\<rparr>
      \<and> (\<forall>k. select_player (snd (process_match d p1 p2 p3 p4 score_t1 score_t2)) k =
            (if k = p4 then Some (max 100 (r4 + team2_change m4 a e), m4 + 1)
             else if k = p3 then Some (max 100 (r3 + team2_change m3 a e), m3 + 1)
             else if k = p2 then Some (max 100 (r2 + team1_change m2 a e), m2 + 1)
             else if k = p1 then Some (max 100 (r1 + team1_change m1 a e), m1 + 1)
             else select_player d k)))"
proof -
  have "(\<exists>x. fst (process_match d p1 p2 p3 p4 score_t1 score_t2) = Returned (True, x))
      \<and> length (matches_table (snd (process_match d p1 p2 p3 p4 score_t1 score_t2)))
          = length (matches_table d) + 1"
    if h: "select_player d p1 \<noteq> None \<and> select_player d p2 \<noteq> None
      \<and> select_player d p3 \<noteq> None \<and> select_player d p4 \<noteq> None
      \<and> score_t1 + score_t2 \<noteq> 0"
  proof -
    from h obtain r1 m1 r2 m2 r3 m3 r4 m4 where
      s: "select_player d p1 = Some (r1, m1)" "select_player d p2 = Some (r2, m2)"
        "select_player d p3 = Some (r3, m3)" "select_player d p4 = Some (r4, m4)"
        "score_t1 + score_t2 \<noteq> 0"
      by auto
    show ?thesis
      by (simp add: process_match_ok [OF s] matches_insert_match matches_update_player)
  qed
  moreover have "main_record_match d t1_p1 t1_p2 t2_p1 t2_p2 score_t1 score_t2
          = (Returned (St_error (Text ''Error: You selected the same player multiple times.'')),
             d)"
    if "4 \<le> length (players_table d) \<and> \<not> distinct [t1_p1, t1_p2, t2_p1, t2_p2]"
  proof -
    from that have "length (remdups [t1_p1, t1_p2, t2_p1, t2_p2]) \<noteq> 4"
      by (simp only: remdups_four not_False_eq_True)
    with that show ?thesis
      by (simp add: main_record_match_def get_players_def Let_def del: remdups.simps)
  qed
  moreover have "main_record_match d t1_p1 t1_p2 t2_p1 t2_p2 score_t1 score_t2
          = (case process_match d p1 p2 p3 p4 score_t1 score_t2 of
               (Raised ex, d') \<Rightarrow> (Raised ex, d')
             | (Returned (success, msg), d') \<Rightarrow>
                 (Returned (if success then St_success msg else St_error msg), d'))
      \<and> (distinct (map player_id (players_table d)) \<longrightarrow> distinct [p1, p2, p3, p4])"
    if h: "4 \<le> length (players_table d) \<and> distinct [t1_p1, t1_p2, t2_p1, t2_p2]
      \<and> \<not> (score_t1 = 0 \<and> score_t2 = 0)
      \<and> player_dict_of (get_players d) t1_p1 = Some p1
      \<and> player_dict_of (get_players d) t1_p2 = Some p2
      \<and> player_dict_of (get_players d) t2_p1 = Some p3
      \<and> player_dict_of (get_players d) t2_p2 = Some p4"
  proof -
    from h have four: "length (remdups [t1_p1, t1_p2, t2_p1, t2_p2]) = 4"
      by (simp only: remdups_four)
    from h have len: "\<not> length (get_players d) < 4"
      by (simp add: get_players_def)
    from h have call: "main_record_match d t1_p1 t1_p2 t2_p1 t2_p2 score_t1 score_t2
          = (case process_match d p1 p2 p3 p4 score_t1 score_t2 of
               (Raised ex, d') \<Rightarrow> (Raised ex, d')
             | (Returned (success, msg), d') \<Rightarrow>
                 (Returned (if success then St_success msg else St_error msg), d'))"
      unfolding main_record_match_def Let_def
      by (simp only: len four if_False not_not refl option.case) simp
    have "distinct [p1, p2, p3, p4]" if uniq: "distinct (map player_id (players_table d))"
    proof -
      from uniq have "distinct (map player_id (get_players d))"
        by (simp add: get_players_def distinct_map)
      note inj = player_dict_of_inj [OF this]
      from h show ?thesis by (auto dest: inj)
    qed
    with call show ?thesis by blast
  qed
  moreover have "snd (process_match d p1 p2 p3 p4 score_t1 score_t2)
          = insert_match
              (foldl update_player d
                 [(p1, max 100 (r1 + team1_change m1 a e), m1 + 1),
                  (p2, max 100 (r2 + team1_change m2 a e), m2 + 1),
                  (p3, max 100 (r3 + team2_change m3 a e), m3 + 1),
                  (p4, max 100 (r4 + team2_change m4 a e), m4 + 1)])
              \<lparr>p1_id = p1, p2_id = p2, p3_id = p3, p4_id = p4,
               score_team1 = score_t1, score_team2 = score_t2,
               rating_change_team1 = max 100 (r1 + team1_change m1 a e) - r1,
               rating_change_team2 = - (max 100 (r1 + team1_change m1 a e) - r1)\<rparr>
      \<and> (\<forall>k. select_player (snd (process_match d p1 p2 p3 p4 score_t1 score_t2)) k =
            (if k = p4 then Some (max 100 (r4 + team2_change m4 a e), m4 + 1)
             else if k = p3 then Some (max 100 (r3 + team2_change m3 a e), m3 + 1)
             else if k = p2 then Some (max 100 (r2 + team1_change m2 a e), m2 + 1)
             else if k = p1 then Some (max 100 (r1 + team1_change m1 a e), m1 + 1)
             else select_player d k))"
    if h: "select_player d p1 = Some (r1, m1) \<and> select_player d p2 = Some (r2, m2)
      \<and> select_player d p3 = Some (r3, m3) \<and> select_player d p4 = Some (r4, m4)
      \<and> score_t1 + score_t2 \<noteq> 0"
  proof -
    from h have s: "select_player d p1 = Some (r1, m1)" "select_player d p2 = Some (r2, m2)"
        "select_player d p3 = Some (r3, m3)" "select_player d p4 = Some (r4, m4)"
        "score_t1 + score_t2 \<noteq> 0"
      by simp_all
    have "snd (process_match d p1 p2 p3 p4 score_t1 score_t2)
          = insert_match
              (foldl update_player d
                 [(p1, max 100 (r1 + team1_change m1 a e), m1 + 1),
                  (p2, max 100 (r2 + team1_change m2 a e), m2 + 1),
                  (p3, max 100 (r3 + team2_change m3 a e), m3 + 1),
                  (p4, max 100 (r4 + team2_change m4 a e), m4 + 1)])
              \<lparr>p1_id = p1, p2_id = p2, p3_id = p3, p4_id = p4,
               score_team1 = score_t1, score_team2 = score_t2,
               rating_change_team1 = max 100 (r1 + team1_change m1 a e) - r1,
               rating_change_team2 = - (max 100 (r1 + team1_change m1 a e) - r1)\<rparr>"
      unfolding a_def e_def by (simp add: process_match_ok [OF s])
    moreover note process_match_select [OF s, folded a_def e_def]
    ultimately show ?thesis by simp
  qed
  ultimately show ?thesis by blast
qed

theorem distinctness_checked_by_caller_witness:
  "(\<exists>x. fst (process_match league_db 1 1 1 1 10 0) = Returned (True, x))
   \<and> main_record_match league_db ''Ana'' ''Ben'' ''Ana'' ''Dee'' 10 0
       = (Returned (St_error (Text ''Error: You selected the same player multiple times.'')),
          league_db)
   \<and> player_dict_of (get_players league_db) ''Ana'' = Some 1
   \<and> player_dict_of (get_players league_db) ''Ben'' = Some 2
   \<and> player_dict_of (get_players league_db) ''Cal'' = Some 3
   \<and> player_dict_of (get_players league_db) ''Dee'' = Some 4
   \<and> main_record_match league_db ''Ana'' ''Ben'' ''Cal'' ''Dee'' 10 0
       = (Returned (St_success (Match_recorded (32 / 100))),
          snd (process_match league_db 1 2 3 4 10 0))
   \<and> snd (process_match league_db 1 2 1 4 10 0)
       = insert_match
           (foldl update_player league_db [(1, 532, 1), (2, 516, 13), (1, 468, 1), (4, 484, 6)])
           \<lparr>p1_id = 1, p2_id = 2, p3_id = 1, p4_id = 4, score_team1 = 10, score_team2 = 0,
            rating_change_team1 = 32, rating_change_team2 = - 32\<rparr>
   \<and> select_player (snd (process_match league_db 1 2 1 4 10 0)) 1 = Some (468, 1)
   \<and> select_player (snd (process_match league_db 1 2 1 4 10 0)) 2 = Some (516, 13)"
proof -
  note same = distinctness_checked_by_caller
      [where d = league_db and ?p1.0 = 1 and ?p2.0 = 1 and ?p3.0 = 1 and ?p4.0 = 1
        and ?score_t1.0 = 10 and ?score_t2.0 = 0
        and ?r1.0 = 500 and ?m1.0 = 0 and ?r2.0 = 500 and ?m2.0 = 0
        and ?r3.0 = 500 and ?m3.0 = 0 and ?r4.0 = 500 and ?m4.0 = 0
        and ?t1_p1.0 = "''Ana''" and ?t1_p2.0 = "''Ben''"
        and ?t2_p1.0 = "''Ana''" and ?t2_p2.0 = "''Dee''"]
  note four = distinctness_checked_by_caller
      [where d = league_db and ?p1.0 = 1 and ?p2.0 = 2 and ?p3.0 = 3 and ?p4.0 = 4
        and ?score_t1.0 = 10 and ?score_t2.0 = 0
        and ?r1.0 = 500 and ?m1.0 = 0 and ?r2.0 = 500 and ?m2.0 = 12
        and ?r3.0 = 500 and ?m3.0 = 4 and ?r4.0 = 500 and ?m4.0 = 5
        and ?t1_p1.0 = "''Ana''" and ?t1_p2.0 = "''Ben''"
        and ?t2_p1.0 = "''Cal''" and ?t2_p2.0 = "''Dee''"]
  note both = distinctness_checked_by_caller
      [where d = league_db and ?p1.0 = 1 and ?p2.0 = 2 and ?p3.0 = 1 and ?p4.0 = 4
        and ?score_t1.0 = 10 and ?score_t2.0 = 0
        and ?r1.0 = 500 and ?m1.0 = 0 and ?r2.0 = 500 and ?m2.0 = 12
        and ?r3.0 = 500 and ?m3.0 = 0 and ?r4.0 = 500 and ?m4.0 = 5
        and ?t1_p1.0 = "''Ana''" and ?t1_p2.0 = "''Ben''"
        and ?t2_p1.0 = "''Ana''" and ?t2_p2.0 = "''Dee''"]
  have sel: "select_player league_db 1 = Some (500, 0)"
    "select_player league_db 2 = Some (500, 12)"
    "select_player league_db 3 = Some (500, 4)"
    "select_player league_db 4 = Some (500, 5)"
    by (simp_all add: league_simps)
  have len: "4 \<le> length (players_table league_db)"
    by (simp add: league_db_def)
  have "\<exists>x. fst (process_match league_db 1 1 1 1 10 0) = Returned (True, x)"
    using same sel by simp
  moreover have "main_record_match league_db ''Ana'' ''Ben'' ''Ana'' ''Dee'' 10 0
       = (Returned (St_error (Text ''Error: You selected the same player multiple times.'')),
          league_db)"
    using same len by simp
  moreover have "main_record_match league_db ''Ana'' ''Ben'' ''Cal'' ''Dee'' 10 0
       = (Returned (St_success (Match_recorded (32 / 100))),
          snd (process_match league_db 1 2 3 4 10 0))"
    using four len league_dict
      process_match_ok [of league_db 1 500 0 2 500 12 3 500 4 4 500 5 10 0] sel
    by (simp add: calculate_expected_score_def team1_change_def team2_change_def
        k_factor_values)
  moreover have "snd (process_match league_db 1 2 1 4 10 0)
       = insert_match
           (foldl update_player league_db [(1, 532, 1), (2, 516, 13), (1, 468, 1), (4, 484, 6)])
           \<lparr>p1_id = 1, p2_id = 2, p3_id = 1, p4_id = 4, score_team1 = 10, score_team2 = 0,
            rating_change_team1 = 32, rating_change_team2 = - 32\<rparr>
   \<and> select_player (snd (process_match league_db 1 2 1 4 10 0)) 1 = Some (468, 1)
   \<and> select_player (snd (process_match league_db 1 2 1 4 10 0)) 2 = Some (516, 13)"
    using both sel
    by (simp add: calculate_expected_score_def team1_change_def team2_change_def
        k_factor_values select_insert_match select_update_player)
  ultimately show ?thesis using league_dict by blast
qed

text \<open>
  Claim C7 as stated fails: with the same player in the first slot of both teams the
  call succeeds, the second write of that row wins, and a match row is appended.
\<close>

theorem duplicate_player_accepted:
  "fst (process_match league_db 1 2 1 4 10 0) = Returned (True, Match_recorded (32 / 100))
   \<and> select_player (snd (process_match league_db 1 2 1 4 10 0)) 1 = Some (468, 1)
   \<and> length (matches_table (snd (process_match league_db 1 2 1 4 10 0))) = 1"
  using process_match_ok [of league_db 1 500 0 2 500 12 1 500 0 4 500 5 10 0]
    process_match_select [of league_db 1 500 0 2 500 12 1 500 0 4 500 5 10 0 1]
    process_match_matches [of league_db 1 500 0 2 500 12 1 500 0 4 500 5 10 0]
  by (simp add: league_simps)

text \<open>
  Claim C8, as the code has it. When one of the four ids has no row,
  \<^verbatim>\<open>process_match\<close> raises the \<^verbatim>\<open>TypeError\<close> of unpacking \<^verbatim>\<open>None\<close>,
  whatever the scores; this happens before any write, so the database is unchanged.
\<close>

theorem missing_player_raises:
  "select_player d p1 = None \<or> select_player d p2 = None
   \<or> select_player d p3 = None \<or> select_player d p4 = None
   \<Longrightarrow> process_match d p1 p2 p3 p4 score_t1 score_t2 = (Raised TypeError, d)"
  by (rule process_match_missing)

theorem missing_player_raises_witness:
  "process_match league_db 42 2 3 4 0 0 = (Raised TypeError, league_db)"
  using missing_player_raises [of league_db 42 2 3 4 0 0]
  by (simp add: league_simps)

text \<open>
  Claim C8 as stated fails in its result: a call with the unknown id 99 does not return
  an error value, it raises \<^verbatim>\<open>TypeError\<close>.
\<close>

theorem missing_player_type_error:
  "process_match league_db 1 2 3 99 10 0 = (Raised TypeError, league_db)"
  by (simp add: process_match_def league_simps)

end
